theory Spec2Isabelle
  imports Main "HOL-Library.Sublist" "HOL-Library.Char_ord" "HOL-Library.List_Lexorder"
begin

section \<open>Helium: the table data access object (tables.queries.ts)\<close>

text \<open>
  A shallow embedding of \<^verbatim>\<open>TableDao\<close> from
  \<^verbatim>\<open>src/server/src/routes/api/tables.queries.ts\<close>.
  JavaScript strings are modelled as \<^typ>\<open>string\<close>; a value the source types as
  \<^verbatim>\<open>string\<close> but reads from a nullable catalog field is a \<^typ>\<open>string option\<close>,
  \<^term>\<open>None\<close> being \<^verbatim>\<open>null\<close>. A thrown \<^verbatim>\<open>Error\<close> is the left
  injection of a sum. The characters are the 8-bit characters of HOL, compared by their
  codes as JavaScript compares code units.
\<close>

subsection \<open>Errors\<close>

text \<open>
  The source throws plain \<^verbatim>\<open>Error\<close> objects that differ by their message; the
  constructors carry the value interpolated into the message.
  \<^item> \<open>UnrecognizedTypeError raw\<close>: "Could not determine TableDataType for raw type 'raw'"
  \<^item> \<open>MalformedEnumError raw\<close>: "Expecting a match from input string raw"
  \<^item> \<open>BrokenForeignKeyError col\<close>: "could not find constraint with name 'col'"
  \<^item> \<open>ValidationError\<close>, \<open>StoreError\<close>: errors raised by the validator and by the
    database helper, which the source lets pass through.
  \<^item> \<open>TypeError\<close>: the runtime's error for a member access on \<^verbatim>\<open>undefined\<close>.
\<close>

datatype error =
    UnrecognizedTypeError string
  | MalformedEnumError string
  | BrokenForeignKeyError string
  | ValidationError string
  | StoreError string
  | TypeError string

subsection \<open>String primitives of JavaScript\<close>

text \<open>\<^verbatim>\<open>hay.includes(needle)\<close>: the needle occurs as a contiguous run.\<close>

fun str_includes :: "string \<Rightarrow> string \<Rightarrow> bool" where
  "str_includes [] needle = (needle = [])"
| "str_includes (c # cs) needle = (prefix needle (c # cs) \<or> str_includes cs needle)"

text \<open>\<^verbatim>\<open>s.startsWith(p)\<close>.\<close>

definition starts_with :: "string \<Rightarrow> string \<Rightarrow> bool" where
  "starts_with s p = prefix p s"

text \<open>
  \<^verbatim>\<open>s.split(sep)\<close> for a separator string: the pieces between the occurrences
  of \<open>sep\<close>, found from left to right without overlap. \<open>acc\<close> holds the current piece
  reversed. With the empty separator JavaScript returns the single characters.
\<close>

fun split_from :: "string \<Rightarrow> string \<Rightarrow> string \<Rightarrow> string list" where
  "split_from sep acc [] = [rev acc]"
| "split_from sep acc (c # cs) =
     (if sep \<noteq> [] \<and> prefix sep (c # cs)
      then rev acc # split_from sep [] (drop (length sep - 1) cs)
      else split_from sep (c # acc) cs)"

definition str_split :: "string \<Rightarrow> string \<Rightarrow> string list" where
  "str_split s sep = (if sep = [] then map (\<lambda>c. [c]) s else split_from sep [] s)"

text \<open>
  The template literal \<^verbatim>\<open>${v}\<close> of a value that may be \<^verbatim>\<open>null\<close>.
\<close>

fun js_str :: "string option \<Rightarrow> string" where
  "js_str None = ''null''"
| "js_str (Some s) = s"

subsection \<open>Canonical types: parseType\<close>

datatype TableDataType =
  TString | TInteger | TFloat | TBoolean | TDate | TDatetime | TEnum | TBlob

definition parseType :: "string \<Rightarrow> error + TableDataType" where
  "parseType rawType =
     (if str_includes rawType ''tinyint(1)'' then Inr TBoolean
      else if str_includes rawType ''int'' then Inr TInteger
      else if str_includes rawType ''double'' \<or> str_includes rawType ''float''
              \<or> str_includes rawType ''decimal'' then Inr TFloat
      else if rawType = ''date'' then Inr TDate
      else if rawType = ''datetime'' \<or> rawType = ''timestamp'' then Inr TDatetime
      else if starts_with rawType ''enum'' then Inr TEnum
      else if str_includes rawType ''char'' then Inr TString
      else if str_includes rawType ''blob'' then Inr TBlob
      else Inl (UnrecognizedTypeError rawType))"

subsection \<open>Enumerated values: findEnumValues\<close>

text \<open>
  The regular expression \<^verbatim>\<open>/^enum\('(.*)'\)$/\<close> matches a string that starts with
  \<^verbatim>\<open>enum('\<close>, ends with \<^verbatim>\<open>')\<close> (the two not overlapping) and has no line
  terminator in between, since \<^verbatim>\<open>.\<close> matches none; both ends being anchored, the
  group is all that lies between them.
\<close>

abbreviation quote :: char where
  "quote \<equiv> CHR 0x27"

abbreviation enum_open :: string where
  "enum_open \<equiv> ''enum('' @ [quote]"

abbreviation enum_close :: string where
  "enum_close \<equiv> [quote, CHR '')'']"

abbreviation enum_separator :: string where
  "enum_separator \<equiv> [quote, CHR '','', quote]"

definition line_terminator :: "char \<Rightarrow> bool" where
  "line_terminator c = (c = CHR 0x0A \<or> c = CHR 0x0D)"

definition enum_body :: "string \<Rightarrow> string option" where
  "enum_body raw =
     (if prefix enum_open raw \<and> suffix enum_close raw \<and> 8 \<le> length raw
         \<and> \<not> list_ex line_terminator (take (length raw - 8) (drop 6 raw))
      then Some (take (length raw - 8) (drop 6 raw))
      else None)"

definition findEnumValues :: "string \<Rightarrow> error + string list option" where
  "findEnumValues raw =
     (if \<not> prefix ''enum('' raw then Inr None
      else case enum_body raw of
             None \<Rightarrow> Inl (MalformedEnumError raw)
           | Some body \<Rightarrow> Inr (Some (str_split body enum_separator)))"

subsection \<open>Default values: identifyDefaultValue\<close>

text \<open>
  \<^verbatim>\<open>DefaultValue\<close>. The numbers that \<^verbatim>\<open>parseInt(rawDefault, 10)\<close> and
  \<^verbatim>\<open>parseFloat(rawDefault)\<close> return are IEEE doubles computed by the language's
  built-ins; the model keeps them as the built-in applied to its argument.
\<close>

datatype DefaultValue =
    ConstantName string
  | ParseInt "string option"
  | ParseFloat "string option"
  | TruthyParseInt "string option"
  | Raw "string option"
  | Null

text \<open>
  \<open>CURRENT_TIMESTAMP\<close> is a constant of \<^verbatim>\<open>common/constants\<close> and is a parameter
  here. The type being one of the eight constructors, the \<^verbatim>\<open>switch\<close> is exhaustive
  and the \<^verbatim>\<open>throw\<close> after it is not reached.
\<close>

definition identifyDefaultValue ::
  "string \<Rightarrow> string \<Rightarrow> TableDataType \<Rightarrow> string option \<Rightarrow> DefaultValue" where
  "identifyDefaultValue CURRENT_TIMESTAMP rawType type rawDefault =
     (if rawDefault = Some CURRENT_TIMESTAMP \<and> rawType = ''datetime''
      then ConstantName CURRENT_TIMESTAMP
      else case type of
             TInteger \<Rightarrow> ParseInt rawDefault
           | TFloat \<Rightarrow> ParseFloat rawDefault
           | TBoolean \<Rightarrow> TruthyParseInt rawDefault
           | TString \<Rightarrow> Raw rawDefault
           | TEnum \<Rightarrow> Raw rawDefault
           | TDate \<Rightarrow> Raw rawDefault
           | TDatetime \<Rightarrow> Raw rawDefault
           | TBlob \<Rightarrow> Null)"

subsection \<open>The store: INFORMATION_SCHEMA.columns\<close>

text \<open>
  One row of \<^verbatim>\<open>INFORMATION_SCHEMA.columns\<close>, with the fields that \<^verbatim>\<open>headers\<close>
  selects and the schema it filters on.
\<close>

record column_row =
  TABLE_SCHEMA :: string
  TABLE_NAME :: string
  COLUMN_NAME :: string
  ORDINAL_POSITION :: nat
  IS_NULLABLE :: string
  DATA_TYPE :: string
  CHARACTER_MAXIMUM_LENGTH :: "nat option"
  NUMERIC_SCALE :: "nat option"
  NUMERIC_PRECISION :: "nat option"
  CHARACTER_SET_NAME :: "string option"
  COLUMN_TYPE :: string
  COLUMN_COMMENT :: string
  COLUMN_DEFAULT :: "string option"

text \<open>
  The operator \<^verbatim>\<open>LIKE\<close> of the store, pattern first: \<^verbatim>\<open>%\<close> stands for any run
  of characters, \<^verbatim>\<open>_\<close> for any one character, and a backslash followed by a
  character stands for that character. Characters are compared exactly.
\<close>

fun sql_like :: "string \<Rightarrow> string \<Rightarrow> bool" where
  "sql_like [] s = (s = [])"
| "sql_like (p # ps) [] = (p = CHR ''%'' \<and> sql_like ps [])"
| "sql_like (p # ps) (c # cs) =
     (if p = CHR ''%'' then (sql_like ps (c # cs) \<or> sql_like (p # ps) cs)
      else if p = CHR ''_'' then sql_like ps cs
      else if p = CHR 0x5C then
        (case ps of
           [] \<Rightarrow> c = p \<and> cs = []
         | q # qs \<Rightarrow> c = q \<and> sql_like qs cs)
      else c = p \<and> sql_like ps cs)"

text \<open>
  \<^verbatim>\<open>SELECT ... FROM INFORMATION_SCHEMA.columns WHERE TABLE_SCHEMA = ? AND
  TABLE_NAME LIKE ? ORDER BY ORDINAL_POSITION\<close>. Rows of equal position keep the order
  they have in the table.
\<close>

definition select_columns :: "column_row list \<Rightarrow> string \<Rightarrow> string \<Rightarrow> column_row list" where
  "select_columns cols schema pattern =
     sort_key ORDINAL_POSITION
       (filter (\<lambda>r. TABLE_SCHEMA r = schema \<and> sql_like pattern (TABLE_NAME r)) cols)"

subsection \<open>headers\<close>

record TableHeader =
  name :: string
  type :: TableDataType
  isNumerical :: bool
  isTextual :: bool
  signed :: bool
  ordinalPosition :: nat
  rawType :: string
  defaultValue :: DefaultValue
  nullable :: bool
  maxCharacters :: "nat option"
  charset :: "string option"
  numericPrecision :: "nat option"
  numericScale :: "nat option"
  enumValues :: "string list option"
  comment :: string
  tableName :: string

text \<open>
  The callback of \<^verbatim>\<open>_.map\<close> in \<^verbatim>\<open>headers\<close>: \<^verbatim>\<open>parseType\<close> runs first and
  \<^verbatim>\<open>findEnumValues\<close> while the object is built, so the error of \<^verbatim>\<open>parseType\<close>
  wins when both throw.
\<close>

definition header_of_row :: "string \<Rightarrow> column_row \<Rightarrow> error + TableHeader" where
  "header_of_row CURRENT_TIMESTAMP row =
     (case parseType (COLUMN_TYPE row) of
        Inl e \<Rightarrow> Inl e
      | Inr ty \<Rightarrow>
          (case findEnumValues (COLUMN_TYPE row) of
             Inl e \<Rightarrow> Inl e
           | Inr values \<Rightarrow>
               Inr \<lparr> name = COLUMN_NAME row,
                     type = ty,
                     isNumerical = (ty = TInteger \<or> ty = TFloat),
                     isTextual = (\<not> (ty = TInteger \<or> ty = TFloat)),
                     signed = ((ty = TInteger \<or> ty = TFloat)
                               \<and> \<not> str_includes (COLUMN_TYPE row) ''unsigned''),
                     ordinalPosition = ORDINAL_POSITION row,
                     rawType = COLUMN_TYPE row,
                     defaultValue =
                       identifyDefaultValue CURRENT_TIMESTAMP (COLUMN_TYPE row) ty
                         (COLUMN_DEFAULT row),
                     nullable = (IS_NULLABLE row = ''YES''),
                     maxCharacters = CHARACTER_MAXIMUM_LENGTH row,
                     charset = CHARACTER_SET_NAME row,
                     numericPrecision = NUMERIC_PRECISION row,
                     numericScale = NUMERIC_SCALE row,
                     enumValues = values,
                     comment = COLUMN_COMMENT row,
                     tableName = TABLE_NAME row \<rparr>))"

text \<open>\<^verbatim>\<open>_.map\<close> with a callback that may throw: the first error ends the loop.\<close>

fun map_result :: "('a \<Rightarrow> error + 'b) \<Rightarrow> 'a list \<Rightarrow> error + 'b list" where
  "map_result f [] = Inr []"
| "map_result f (x # xs) =
     (case f x of
        Inl e \<Rightarrow> Inl e
      | Inr y \<Rightarrow> (case map_result f xs of Inl e \<Rightarrow> Inl e | Inr ys \<Rightarrow> Inr (y # ys)))"

definition headers ::
  "string \<Rightarrow> column_row list \<Rightarrow> string \<Rightarrow> string \<Rightarrow> error + TableHeader list" where
  "headers CURRENT_TIMESTAMP cols schema pattern =
     map_result (header_of_row CURRENT_TIMESTAMP) (select_columns cols schema pattern)"

subsection \<open>The store: INFORMATION_SCHEMA.KEY_COLUMN_USAGE\<close>

record key_usage_row =
  CONSTRAINT_SCHEMA :: string
  KCU_TABLE_NAME :: string
  KCU_COLUMN_NAME :: string
  KCU_ORDINAL_POSITION :: nat
  CONSTRAINT_NAME :: string
  REFERENCED_TABLE_NAME :: "string option"
  REFERENCED_COLUMN_NAME :: "string option"

text \<open>
  \<^verbatim>\<open>SELECT ... FROM INFORMATION_SCHEMA.KEY_COLUMN_USAGE WHERE CONSTRAINT_SCHEMA = ?
  AND TABLE_NAME = ? ORDER BY ORDINAL_POSITION\<close>. The table name bound to the query is
  \<^verbatim>\<open>null\<close> when the resolver follows a constraint that references nothing; a
  comparison with \<^verbatim>\<open>NULL\<close> selects no row.
\<close>

definition select_key_usage ::
  "key_usage_row list \<Rightarrow> string \<Rightarrow> string option \<Rightarrow> key_usage_row list" where
  "select_key_usage kcu schema table =
     sort_key KCU_ORDINAL_POSITION
       (filter (\<lambda>r. CONSTRAINT_SCHEMA r = schema \<and> Some (KCU_TABLE_NAME r) = table) kcu)"

subsection \<open>constraints\<close>

datatype ConstraintType = Primary | Unique | Foreign

record Constraint =
  ctype :: ConstraintType
  localColumn :: string
  foreignTable :: "string option"
  foreignColumn :: "string option"

definition constraint_of_row :: "key_usage_row \<Rightarrow> Constraint" where
  "constraint_of_row row =
     \<lparr> ctype = (if CONSTRAINT_NAME row = ''PRIMARY'' then Primary
                else if CONSTRAINT_NAME row = KCU_COLUMN_NAME row then Unique
                else Foreign),
       localColumn = KCU_COLUMN_NAME row,
       foreignTable = REFERENCED_TABLE_NAME row,
       foreignColumn = REFERENCED_COLUMN_NAME row \<rparr>"

definition constraints ::
  "key_usage_row list \<Rightarrow> string \<Rightarrow> string option \<Rightarrow> Constraint list" where
  "constraints kcu schema table = map constraint_of_row (select_key_usage kcu schema table)"

subsection \<open>resolveConstraints\<close>

text \<open>
  The cache is the object literal \<^verbatim>\<open>{}\<close>. Reading \<^verbatim>\<open>cache[table]\<close> gives a
  stored list, or a member of \<^verbatim>\<open>Object.prototype\<close> when the table bears the name of
  one, or \<^verbatim>\<open>undefined\<close>. The members of the prototype are functions and objects,
  hence truthy, and \<^verbatim>\<open>_.find\<close> finds nothing in them.
\<close>

datatype cache_entry = Stored "Constraint list" | Inherited

definition object_prototype_names :: "string list" where
  "object_prototype_names =
     [''constructor'', ''hasOwnProperty'', ''isPrototypeOf'', ''propertyIsEnumerable'',
      ''toLocaleString'', ''toString'', ''valueOf'', ''__proto__'',
      ''__defineGetter__'', ''__defineSetter__'', ''__lookupGetter__'', ''__lookupSetter__'']"

definition empty_object :: "string \<Rightarrow> cache_entry option" where
  "empty_object key = (if key \<in> set object_prototype_names then Some Inherited else None)"

text \<open>
  \<^verbatim>\<open>getConstraints\<close>. The second component records the tables whose constraints
  were fetched from the store, in the order of the queries.
\<close>

definition getConstraints ::
  "key_usage_row list \<Rightarrow> string \<Rightarrow> (string \<Rightarrow> cache_entry option) \<Rightarrow> string option
    \<Rightarrow> string option list \<Rightarrow> Constraint list \<times> string option list" where
  "getConstraints kcu schema cache table fetched =
     (case cache (js_str table) of
        Some (Stored cs) \<Rightarrow> (cs, fetched)
      | Some Inherited \<Rightarrow> ([], fetched)
      | None \<Rightarrow> (constraints kcu schema table, fetched @ [table]))"

definition findConstraint :: "string option \<Rightarrow> Constraint list \<Rightarrow> error + Constraint" where
  "findConstraint column others =
     (case find (\<lambda>other. Some (localColumn other) = column) others of
        None \<Rightarrow> Inl (BrokenForeignKeyError (js_str column))
      | Some temp \<Rightarrow> Inr temp)"

text \<open>
  The \<^verbatim>\<open>while\<close> loop that follows one chain; \<^term>\<open>None\<close> is a loop that never
  ends.
\<close>

partial_function (option) walk ::
  "key_usage_row list \<Rightarrow> string \<Rightarrow> (string \<Rightarrow> cache_entry option) \<Rightarrow> Constraint
    \<Rightarrow> Constraint option \<Rightarrow> string option list
    \<Rightarrow> ((error + Constraint option) \<times> string option list) option" where
  "walk kcu schema cache current previous fetched =
     (if ctype current = Primary then Some (Inr previous, fetched)
      else
        (case findConstraint (foreignColumn current)
                (fst (getConstraints kcu schema cache (foreignTable current) fetched)) of
           Inl e \<Rightarrow>
             Some (Inl e, snd (getConstraints kcu schema cache (foreignTable current) fetched))
         | Inr next \<Rightarrow>
             walk kcu schema cache next (Some current)
               (snd (getConstraints kcu schema cache (foreignTable current) fetched))))"

declare walk.simps [code]

text \<open>The \<^verbatim>\<open>for\<close> loop over the original constraints.\<close>

fun resolve_loop ::
  "key_usage_row list \<Rightarrow> string \<Rightarrow> (string \<Rightarrow> cache_entry option) \<Rightarrow> Constraint list
    \<Rightarrow> Constraint list \<Rightarrow> string option list
    \<Rightarrow> ((error + Constraint list) \<times> string option list) option" where
  "resolve_loop kcu schema cache [] resolved fetched = Some (Inr resolved, fetched)"
| "resolve_loop kcu schema cache (c # cs) resolved fetched =
     (if ctype c \<noteq> Foreign then resolve_loop kcu schema cache cs (resolved @ [c]) fetched
      else
        (case walk kcu schema cache c None fetched of
           None \<Rightarrow> None
         | Some (Inl e, fetched') \<Rightarrow> Some (Inl e, fetched')
         | Some (Inr previous, fetched') \<Rightarrow>
             resolve_loop kcu schema cache cs
               (case previous of None \<Rightarrow> resolved | Some p \<Rightarrow> resolved @ [p]) fetched'))"

definition resolveConstraints ::
  "key_usage_row list \<Rightarrow> string \<Rightarrow> Constraint list
    \<Rightarrow> ((error + Constraint list) \<times> string option list) option" where
  "resolveConstraints kcu schema originals =
     resolve_loop kcu schema empty_object originals [] []"

text \<open>
  One look-up of the walk: the constraint that the loop moves to from \<open>c\<close>, or the error
  of \<^verbatim>\<open>findConstraint\<close>. What is found does not depend on the tables fetched so far.
\<close>

definition follow ::
  "key_usage_row list \<Rightarrow> string \<Rightarrow> (string \<Rightarrow> cache_entry option) \<Rightarrow> Constraint
    \<Rightarrow> error + Constraint" where
  "follow kcu schema cache c =
     findConstraint (foreignColumn c) (fst (getConstraints kcu schema cache (foreignTable c) []))"

text \<open>
  A chain that ends within \<open>n\<close> look-ups: at a primary constraint, or at a column for
  which \<^verbatim>\<open>findConstraint\<close> finds no record.
\<close>

fun chain_ends ::
  "nat \<Rightarrow> key_usage_row list \<Rightarrow> string \<Rightarrow> (string \<Rightarrow> cache_entry option) \<Rightarrow> Constraint \<Rightarrow> bool" where
  "chain_ends 0 kcu schema cache c = (ctype c = Primary)"
| "chain_ends (Suc n) kcu schema cache c =
     (ctype c = Primary \<or>
      (case follow kcu schema cache c of
         Inl e \<Rightarrow> True
       | Inr next \<Rightarrow> chain_ends n kcu schema cache next))"

text \<open>A chain that arrives at a primary constraint within \<open>n\<close> look-ups.\<close>

fun reaches_primary ::
  "nat \<Rightarrow> key_usage_row list \<Rightarrow> string \<Rightarrow> (string \<Rightarrow> cache_entry option) \<Rightarrow> Constraint \<Rightarrow> bool" where
  "reaches_primary 0 kcu schema cache c = (ctype c = Primary)"
| "reaches_primary (Suc n) kcu schema cache c =
     (ctype c = Primary \<or>
      (case follow kcu schema cache c of
         Inl e \<Rightarrow> False
       | Inr next \<Rightarrow> reaches_primary n kcu schema cache next))"


subsection \<open>meta\<close>

text \<open>
  \<^verbatim>\<open>TableName\<close> (\<^verbatim>\<open>common/table-name.class\<close>), with the two members that
  \<^verbatim>\<open>meta\<close> reads.
\<close>

datatype TableName = TableName (rawName: string) (parts: "TableName list")

record TableMeta =
  meta_name :: string
  meta_headers :: "TableHeader list"
  totalRows :: nat
  meta_constraints :: "Constraint list"
  meta_comment :: string
  meta_parts :: "TableName list"

text \<open>
  A promise is fulfilled (\<open>Some (Inr v)\<close>), rejected (\<open>Some (Inl e)\<close>) or never settled
  (\<^term>\<open>None\<close>). \<^verbatim>\<open>Promise.all\<close> rejects as soon as one of its promises does, with
  that promise's error; which one is first depends on the timing of the queries, so a
  rejection carries the errors of all the promises that reject, the reason being one of
  them.
\<close>

definition rejection :: "(error + 'a) option \<Rightarrow> error list" where
  "rejection p = (case p of Some (Inl e) \<Rightarrow> [e] | _ \<Rightarrow> [])"

text \<open>
  \<^verbatim>\<open>meta\<close>. The table list, the row count and the comment are what the store
  answers to \<^verbatim>\<open>tables\<close>, \<^verbatim>\<open>count\<close> and \<^verbatim>\<open>comment\<close>;
  \<^verbatim>\<open>unflattenTableNames\<close> (\<^verbatim>\<open>common/util\<close>) is a parameter.
\<close>

definition meta ::
  "string \<Rightarrow> (TableName list \<Rightarrow> TableName list) \<Rightarrow> error + TableName list
    \<Rightarrow> column_row list \<Rightarrow> error + nat \<Rightarrow> key_usage_row list \<Rightarrow> error + string
    \<Rightarrow> string \<Rightarrow> string \<Rightarrow> (error list + TableMeta) option" where
  "meta CURRENT_TIMESTAMP unflattenTableNames tables cols count kcu table_comment schema table =
     (let p_headers = headers CURRENT_TIMESTAMP cols schema table;
          p_constraints =
            map_option fst (resolveConstraints kcu schema (constraints kcu schema (Some table)));
          errors = rejection (Some tables) @ rejection (Some p_headers) @ rejection (Some count)
                     @ rejection p_constraints @ rejection (Some table_comment)
      in if errors \<noteq> [] then Some (Inl errors)
         else
           (case (tables, p_headers, count, p_constraints, table_comment) of
              (Inr allTables, Inr hs, Inr n, Some (Inr cs), Inr cm) \<Rightarrow>
                Some (Inr \<lparr> meta_name = table,
                            meta_headers = hs,
                            totalRows = n,
                            meta_constraints = cs,
                            meta_comment = cm,
                            meta_parts =
                              (case find (\<lambda>t. rawName t = table) (unflattenTableNames allTables) of
                                 None \<Rightarrow> []
                               | Some masterTable \<Rightarrow> parts masterTable) \<rparr>)
            | _ \<Rightarrow> None))"

subsection \<open>insertRow\<close>

text \<open>A value of a row, and a row as the object's properties in their order.\<close>

datatype cell = Boolean bool | Number int | Text string | NullValue

type_synonym SqlRow = "(string \<times> cell) list"

fun prepareValue :: "cell \<Rightarrow> cell" where
  "prepareValue (Boolean v) = (if v then Number 1 else Number 0)"
| "prepareValue v = v"

text \<open>\<^verbatim>\<open>result[key] = value\<close> on an object.\<close>

fun set_property :: "string \<Rightarrow> cell \<Rightarrow> SqlRow \<Rightarrow> SqlRow" where
  "set_property key v [] = [(key, v)]"
| "set_property key v ((k, w) # row) =
     (if k = key then (k, v) # row else (k, w) # set_property key v row)"

text \<open>
  \<^verbatim>\<open>prepareForInsert\<close>; \<^verbatim>\<open>escapeId\<close> belongs to the database helper and is a
  parameter.
\<close>

definition prepareForInsert :: "(string \<Rightarrow> string) \<Rightarrow> SqlRow \<Rightarrow> SqlRow" where
  "prepareForInsert escapeId validated =
     foldl (\<lambda>result (columnName, v). set_property (escapeId columnName) (prepareValue v) result)
       [] validated"

text \<open>
  The statement \<^verbatim>\<open>squel.insert().into(target).setFieldsRows(rows)\<close>. The store runs
  it through \<open>execute\<close>, a parameter, which gives the new contents of the store and may
  fail.
\<close>

datatype insert_statement = Insert (into: string) (fieldsRows: "SqlRow list")

text \<open>
  The loop over the sorted names. \<^verbatim>\<open>preparedData[name]\<close> is the list stored under
  the name.
\<close>

fun insert_loop ::
  "(string \<Rightarrow> string) \<Rightarrow> (insert_statement \<Rightarrow> 'db \<Rightarrow> (error + unit) \<times> 'db) \<Rightarrow> string
    \<Rightarrow> string \<Rightarrow> (string \<times> SqlRow list) list \<Rightarrow> string list \<Rightarrow> 'db \<Rightarrow> (error + unit) \<times> 'db" where
  "insert_loop escapeId execute schema table preparedData [] db = (Inr (), db)"
| "insert_loop escapeId execute schema table preparedData (nm # names) db =
     (case map_of preparedData nm of
        None \<Rightarrow> (Inl (TypeError nm), db)
      | Some validated_rows \<Rightarrow>
          (case execute
                  (Insert (escapeId schema @ ''.'' @ escapeId table)
                     (map (prepareForInsert escapeId) validated_rows)) db of
             (Inl e, db') \<Rightarrow> (Inl e, db')
           | (Inr u, db') \<Rightarrow>
               insert_loop escapeId execute schema table preparedData names db'))"

text \<open>
  Modelled from the spec: \<^verbatim>\<open>Database.transaction\<close> (\<^verbatim>\<open>db/database.helper\<close>) is
  not among the sources. The spec gives it as \<^verbatim>\<open>transaction(work) -> result\<close>,
  rolling back on any error raised inside \<^verbatim>\<open>work\<close> and committing otherwise.
\<close>

definition transaction ::
  "('db \<Rightarrow> (error + 'a) \<times> 'db) \<Rightarrow> 'db \<Rightarrow> (error + 'a) \<times> 'db" where
  "transaction work db =
     (case work db of
        (Inl e, db') \<Rightarrow> (Inl e, db)
      | (Inr v, db') \<Rightarrow> (Inr v, db'))"

text \<open>
  \<^verbatim>\<open>insertRow\<close>. The validator (\<^verbatim>\<open>table-input.validator\<close>) is a parameter; it
  gives the rows to insert for each table name, an object whose keys are the names.
  \<^verbatim>\<open>_.sortBy\<close> sorts the keys in ascending order of their characters.
\<close>

definition insertRow ::
  "(string \<Rightarrow> string) \<Rightarrow> (insert_statement \<Rightarrow> 'db \<Rightarrow> (error + unit) \<times> 'db)
    \<Rightarrow> (string \<Rightarrow> 'data \<Rightarrow> error + (string \<times> SqlRow list) list)
    \<Rightarrow> string \<Rightarrow> string \<Rightarrow> 'data \<Rightarrow> 'db \<Rightarrow> (error + unit) \<times> 'db" where
  "insertRow escapeId execute validate schema table data db =
     (case validate schema data of
        Inl e \<Rightarrow> (Inl e, db)
      | Inr preparedData \<Rightarrow>
          transaction
            (insert_loop escapeId execute schema table preparedData
               (sort (map fst preparedData)))
            db)"

text \<open>
  The statement that the loop builds for a name, and the execution of statements one after
  the other until one fails; they say which inserts ran before a failing one.
\<close>

definition rows_for :: "(string \<times> SqlRow list) list \<Rightarrow> string \<Rightarrow> SqlRow list" where
  "rows_for preparedData nm = (case map_of preparedData nm of None \<Rightarrow> [] | Some rows \<Rightarrow> rows)"

definition statement_for ::
  "(string \<Rightarrow> string) \<Rightarrow> string \<Rightarrow> string \<Rightarrow> (string \<times> SqlRow list) list \<Rightarrow> string
    \<Rightarrow> insert_statement" where
  "statement_for escapeId schema table preparedData nm =
     Insert (escapeId schema @ ''.'' @ escapeId table)
       (map (prepareForInsert escapeId) (rows_for preparedData nm))"

fun run_statements ::
  "(insert_statement \<Rightarrow> 'db \<Rightarrow> (error + unit) \<times> 'db) \<Rightarrow> insert_statement list \<Rightarrow> 'db
    \<Rightarrow> (error + unit) \<times> 'db" where
  "run_statements execute [] db = (Inr (), db)"
| "run_statements execute (st # sts) db =
     (case execute st db of
        (Inl e, db') \<Rightarrow> (Inl e, db')
      | (Inr u, db') \<Rightarrow> run_statements execute sts db')"

section \<open>Example catalogs\<close>

text \<open>A table with a column of type \<^verbatim>\<open>enum('print','web')\<close>.\<close>

definition media_columns :: "column_row list" where
  "media_columns =
     [\<lparr> TABLE_SCHEMA = ''shop'', TABLE_NAME = ''media'', COLUMN_NAME = ''kind'',
         ORDINAL_POSITION = 1, IS_NULLABLE = ''NO'', DATA_TYPE = ''enum'',
         CHARACTER_MAXIMUM_LENGTH = Some 5, NUMERIC_SCALE = None, NUMERIC_PRECISION = None,
         CHARACTER_SET_NAME = Some ''utf8'',
         COLUMN_TYPE = enum_open @ ''print'' @ enum_separator @ ''web'' @ enum_close,
         COLUMN_COMMENT = [], COLUMN_DEFAULT = None \<rparr>]"

text \<open>
  The chain of the resolver's documentation: \<^verbatim>\<open>A.foo\<close> references \<^verbatim>\<open>B.bar\<close>,
  \<^verbatim>\<open>B.bar\<close> references \<^verbatim>\<open>C.baz\<close>, and \<^verbatim>\<open>C.baz\<close> is a primary key.
\<close>

definition chain_usage :: "key_usage_row list" where
  "chain_usage =
     [\<lparr> CONSTRAINT_SCHEMA = ''s'', KCU_TABLE_NAME = ''A'', KCU_COLUMN_NAME = ''foo'',
         KCU_ORDINAL_POSITION = 1, CONSTRAINT_NAME = ''fk_a'',
         REFERENCED_TABLE_NAME = Some ''B'', REFERENCED_COLUMN_NAME = Some ''bar'' \<rparr>,
      \<lparr> CONSTRAINT_SCHEMA = ''s'', KCU_TABLE_NAME = ''B'', KCU_COLUMN_NAME = ''bar'',
         KCU_ORDINAL_POSITION = 1, CONSTRAINT_NAME = ''fk_b'',
         REFERENCED_TABLE_NAME = Some ''C'', REFERENCED_COLUMN_NAME = Some ''baz'' \<rparr>,
      \<lparr> CONSTRAINT_SCHEMA = ''s'', KCU_TABLE_NAME = ''C'', KCU_COLUMN_NAME = ''baz'',
         KCU_ORDINAL_POSITION = 1, CONSTRAINT_NAME = ''PRIMARY'',
         REFERENCED_TABLE_NAME = None, REFERENCED_COLUMN_NAME = None \<rparr>]"

text \<open>Two foreign keys of \<^verbatim>\<open>A\<close> that reference the primary key of \<^verbatim>\<open>B\<close>.\<close>

definition shared_usage :: "key_usage_row list" where
  "shared_usage =
     [\<lparr> CONSTRAINT_SCHEMA = ''s'', KCU_TABLE_NAME = ''A'', KCU_COLUMN_NAME = ''x'',
         KCU_ORDINAL_POSITION = 1, CONSTRAINT_NAME = ''fk_x'',
         REFERENCED_TABLE_NAME = Some ''B'', REFERENCED_COLUMN_NAME = Some ''id'' \<rparr>,
      \<lparr> CONSTRAINT_SCHEMA = ''s'', KCU_TABLE_NAME = ''A'', KCU_COLUMN_NAME = ''y'',
         KCU_ORDINAL_POSITION = 1, CONSTRAINT_NAME = ''fk_y'',
         REFERENCED_TABLE_NAME = Some ''B'', REFERENCED_COLUMN_NAME = Some ''id'' \<rparr>,
      \<lparr> CONSTRAINT_SCHEMA = ''s'', KCU_TABLE_NAME = ''B'', KCU_COLUMN_NAME = ''id'',
         KCU_ORDINAL_POSITION = 1, CONSTRAINT_NAME = ''PRIMARY'',
         REFERENCED_TABLE_NAME = None, REFERENCED_COLUMN_NAME = None \<rparr>]"

text \<open>
  Two foreign keys that reference each other: \<^verbatim>\<open>A.x\<close> references \<^verbatim>\<open>B.y\<close> and
  \<^verbatim>\<open>B.y\<close> references \<^verbatim>\<open>A.x\<close>.
\<close>

definition cyclic_usage :: "key_usage_row list" where
  "cyclic_usage =
     [\<lparr> CONSTRAINT_SCHEMA = ''s'', KCU_TABLE_NAME = ''A'', KCU_COLUMN_NAME = ''x'',
         KCU_ORDINAL_POSITION = 1, CONSTRAINT_NAME = ''fk_a'',
         REFERENCED_TABLE_NAME = Some ''B'', REFERENCED_COLUMN_NAME = Some ''y'' \<rparr>,
      \<lparr> CONSTRAINT_SCHEMA = ''s'', KCU_TABLE_NAME = ''B'', KCU_COLUMN_NAME = ''y'',
         KCU_ORDINAL_POSITION = 1, CONSTRAINT_NAME = ''fk_b'',
         REFERENCED_TABLE_NAME = Some ''A'', REFERENCED_COLUMN_NAME = Some ''x'' \<rparr>]"

definition cycle_a :: Constraint where
  "cycle_a = \<lparr> ctype = Foreign, localColumn = ''x'', foreignTable = Some ''B'',
               foreignColumn = Some ''y'' \<rparr>"

definition cycle_b :: Constraint where
  "cycle_b = \<lparr> ctype = Foreign, localColumn = ''y'', foreignTable = Some ''A'',
               foreignColumn = Some ''x'' \<rparr>"

text \<open>The first link of the chain of three tables.\<close>

definition chain_foo :: Constraint where
  "chain_foo = \<lparr> ctype = Foreign, localColumn = ''foo'', foreignTable = Some ''B'',
                 foreignColumn = Some ''bar'' \<rparr>"

text \<open>
  A chain that ends at a column without a key-usage row: \<^verbatim>\<open>A.foo\<close> references
  \<^verbatim>\<open>B.bar\<close>, and \<^verbatim>\<open>B.bar\<close> references \<^verbatim>\<open>C.gone\<close>.
\<close>

definition gone_usage :: "key_usage_row list" where
  "gone_usage =
     [\<lparr> CONSTRAINT_SCHEMA = ''s'', KCU_TABLE_NAME = ''A'', KCU_COLUMN_NAME = ''id'',
         KCU_ORDINAL_POSITION = 1, CONSTRAINT_NAME = ''PRIMARY'',
         REFERENCED_TABLE_NAME = None, REFERENCED_COLUMN_NAME = None \<rparr>,
      \<lparr> CONSTRAINT_SCHEMA = ''s'', KCU_TABLE_NAME = ''A'', KCU_COLUMN_NAME = ''foo'',
         KCU_ORDINAL_POSITION = 1, CONSTRAINT_NAME = ''fk_a'',
         REFERENCED_TABLE_NAME = Some ''B'', REFERENCED_COLUMN_NAME = Some ''bar'' \<rparr>,
      \<lparr> CONSTRAINT_SCHEMA = ''s'', KCU_TABLE_NAME = ''B'', KCU_COLUMN_NAME = ''bar'',
         KCU_ORDINAL_POSITION = 1, CONSTRAINT_NAME = ''fk_b'',
         REFERENCED_TABLE_NAME = Some ''C'', REFERENCED_COLUMN_NAME = Some ''gone'' \<rparr>,
      \<lparr> CONSTRAINT_SCHEMA = ''s'', KCU_TABLE_NAME = ''C'', KCU_COLUMN_NAME = ''id'',
         KCU_ORDINAL_POSITION = 1, CONSTRAINT_NAME = ''PRIMARY'',
         REFERENCED_TABLE_NAME = None, REFERENCED_COLUMN_NAME = None \<rparr>]"

definition gone_primary :: Constraint where
  "gone_primary = \<lparr> ctype = Primary, localColumn = ''id'', foreignTable = None,
                    foreignColumn = None \<rparr>"

definition gone_foo :: Constraint where
  "gone_foo = \<lparr> ctype = Foreign, localColumn = ''foo'', foreignTable = Some ''B'',
                foreignColumn = Some ''bar'' \<rparr>"





text \<open>
  A submission for the master \<^verbatim>\<open>orders\<close> and its part \<^verbatim>\<open>orders__detail\<close>, an
  \<^verbatim>\<open>escapeId\<close> for plain names, a store that records the statements it runs, and a
  store that accepts only rows with the single column \<^verbatim>\<open>id\<close>.
\<close>

definition backticks :: "string \<Rightarrow> string" where
  "backticks s = [CHR 0x60] @ s @ [CHR 0x60]"

definition orders_data :: "(string \<times> SqlRow list) list" where
  "orders_data =
     [(''orders__detail'', [[(''sku'', Text ''pen''), (''gift'', Boolean True)]]),
      (''orders'', [[(''id'', Number 7)]])]"

definition record_statement ::
  "insert_statement \<Rightarrow> insert_statement list \<Rightarrow> (error + unit) \<times> insert_statement list" where
  "record_statement st db = (Inr (), db @ [st])"

definition orders_store ::
  "insert_statement \<Rightarrow> insert_statement list \<Rightarrow> (error + unit) \<times> insert_statement list" where
  "orders_store st db =
     (if list_ex (\<lambda>row. map fst row \<noteq> [backticks ''id'']) (fieldsRows st)
      then (Inl (StoreError ''Unknown column''), db)
      else (Inr (), db @ [st]))"

text \<open>A validator that accepts the data as the rows to insert, and one that rejects it.\<close>

definition accept_all ::
  "string \<Rightarrow> (string \<times> SqlRow list) list \<Rightarrow> error + (string \<times> SqlRow list) list" where
  "accept_all schema data = Inr data"

definition reject_all ::
  "string \<Rightarrow> (string \<times> SqlRow list) list \<Rightarrow> error + (string \<times> SqlRow list) list" where
  "reject_all schema data = Inl (ValidationError ''id is required'')"

text \<open>
  The columns of four tables of the schema \<^verbatim>\<open>shop\<close> and of one table of the schema
  \<^verbatim>\<open>crm\<close>.
\<close>

definition part_column :: "string \<Rightarrow> string \<Rightarrow> string \<Rightarrow> nat \<Rightarrow> string \<Rightarrow> column_row" where
  "part_column schema table column position raw =
     \<lparr> TABLE_SCHEMA = schema, TABLE_NAME = table, COLUMN_NAME = column,
       ORDINAL_POSITION = position, IS_NULLABLE = ''NO'', DATA_TYPE = raw,
       CHARACTER_MAXIMUM_LENGTH = None, NUMERIC_SCALE = None, NUMERIC_PRECISION = None,
       CHARACTER_SET_NAME = None, COLUMN_TYPE = raw, COLUMN_COMMENT = [],
       COLUMN_DEFAULT = None \<rparr>"

definition part_columns :: "column_row list" where
  "part_columns =
     [part_column ''shop'' ''part_a'' ''id'' 1 ''int(11)'',
      part_column ''shop'' ''part_a'' ''label'' 2 ''varchar(20)'',
      part_column ''shop'' ''partxa'' ''code'' 1 ''char(3)'',
      part_column ''shop'' ''partxya'' ''note'' 1 ''varchar(80)'',
      part_column ''shop'' ''parts'' ''n'' 1 ''int(11)'',
      part_column ''crm'' ''part_a'' ''id'' 1 ''int(11)'']"

section \<open>Properties\<close>

subsection \<open>Type inference\<close>

lemma str_includes_sublist: "str_includes hay needle = sublist needle hay"
  by (induction hay) (simp_all add: sublist_Cons_right)

lemma int_in_tinyint: "sublist ''tinyint(1)'' raw \<Longrightarrow> sublist ''int'' raw"
proof -
  assume a: "sublist ''tinyint(1)'' raw"
  have "sublist ''int'' ''tinyint(1)''"
    by (simp add: str_includes_sublist [symmetric])
  then show ?thesis
    using a sublist_order.order_trans by blast
qed

lemma parseType_sublist:
  "parseType raw =
     (if sublist ''tinyint(1)'' raw then Inr TBoolean
      else if sublist ''int'' raw then Inr TInteger
      else if sublist ''double'' raw \<or> sublist ''float'' raw \<or> sublist ''decimal'' raw
        then Inr TFloat
      else if raw = ''date'' then Inr TDate
      else if raw = ''datetime'' \<or> raw = ''timestamp'' then Inr TDatetime
      else if prefix ''enum'' raw then Inr TEnum
      else if sublist ''char'' raw then Inr TString
      else if sublist ''blob'' raw then Inr TBlob
      else Inl (UnrecognizedTypeError raw))"
  by (simp add: parseType_def str_includes_sublist starts_with_def)

lemma parseType_date: "parseType ''date'' = Inr TDate"
  by (simp add: parseType_def)

lemma parseType_datetime: "parseType ''datetime'' = Inr TDatetime"
  by (simp add: parseType_def)

lemma parseType_timestamp: "parseType ''timestamp'' = Inr TDatetime"
  by (simp add: parseType_def starts_with_def)

text \<open>
  Claim C6. \<^verbatim>\<open>parseType\<close> follows the ordered rules: a raw type that contains
  \<^verbatim>\<open>tinyint(1)\<close> is boolean; otherwise one that contains \<^verbatim>\<open>int\<close> is integer;
  otherwise one that contains \<^verbatim>\<open>double\<close>, \<^verbatim>\<open>float\<close> or \<^verbatim>\<open>decimal\<close>
  is float; \<^verbatim>\<open>date\<close> is date; \<^verbatim>\<open>datetime\<close> and \<^verbatim>\<open>timestamp\<close> are
  datetime; then a raw type that starts with \<^verbatim>\<open>enum\<close> is enum, one that contains
  \<^verbatim>\<open>char\<close> is string, one that contains \<^verbatim>\<open>blob\<close> is blob; and a raw type
  that matches no rule fails with the error that carries it. Containment is stated with
  \<^const>\<open>sublist\<close> and the start with \<^const>\<open>prefix\<close>.
\<close>

theorem parseType_rules:
  "(sublist ''tinyint(1)'' raw \<longrightarrow> parseType raw = Inr TBoolean)
   \<and> (\<not> sublist ''tinyint(1)'' raw \<and> sublist ''int'' raw \<longrightarrow> parseType raw = Inr TInteger)
   \<and> (\<not> sublist ''int'' raw
        \<and> (sublist ''double'' raw \<or> sublist ''float'' raw \<or> sublist ''decimal'' raw)
        \<longrightarrow> parseType raw = Inr TFloat)
   \<and> (raw = ''date'' \<longrightarrow> parseType raw = Inr TDate)
   \<and> (raw = ''datetime'' \<or> raw = ''timestamp'' \<longrightarrow> parseType raw = Inr TDatetime)
   \<and> (\<not> sublist ''int'' raw \<and> \<not> sublist ''double'' raw \<and> \<not> sublist ''float'' raw
        \<and> \<not> sublist ''decimal'' raw \<and> prefix ''enum'' raw \<longrightarrow> parseType raw = Inr TEnum)
   \<and> (\<not> sublist ''int'' raw \<and> \<not> sublist ''double'' raw \<and> \<not> sublist ''float'' raw
        \<and> \<not> sublist ''decimal'' raw \<and> \<not> prefix ''enum'' raw \<and> sublist ''char'' raw
        \<longrightarrow> parseType raw = Inr TString)
   \<and> (\<not> sublist ''int'' raw \<and> \<not> sublist ''double'' raw \<and> \<not> sublist ''float'' raw
        \<and> \<not> sublist ''decimal'' raw \<and> raw \<noteq> ''date'' \<and> raw \<noteq> ''datetime''
        \<and> raw \<noteq> ''timestamp'' \<and> \<not> prefix ''enum'' raw \<and> \<not> sublist ''char'' raw
        \<and> sublist ''blob'' raw \<longrightarrow> parseType raw = Inr TBlob)
   \<and> (\<not> sublist ''int'' raw \<and> \<not> sublist ''double'' raw \<and> \<not> sublist ''float'' raw
        \<and> \<not> sublist ''decimal'' raw \<and> raw \<noteq> ''date'' \<and> raw \<noteq> ''datetime''
        \<and> raw \<noteq> ''timestamp'' \<and> \<not> prefix ''enum'' raw \<and> \<not> sublist ''char'' raw
        \<and> \<not> sublist ''blob'' raw \<longrightarrow> parseType raw = Inl (UnrecognizedTypeError raw))"
proof -
  have no_tiny: "\<not> sublist ''int'' raw \<Longrightarrow> \<not> sublist ''tinyint(1)'' raw"
    using int_in_tinyint by blast
  have r1: "sublist ''tinyint(1)'' raw \<longrightarrow> parseType raw = Inr TBoolean"
    by (simp add: parseType_sublist)
  have r2: "\<not> sublist ''tinyint(1)'' raw \<and> sublist ''int'' raw \<longrightarrow> parseType raw = Inr TInteger"
    by (simp add: parseType_sublist)
  have r3: "\<not> sublist ''int'' raw
        \<and> (sublist ''double'' raw \<or> sublist ''float'' raw \<or> sublist ''decimal'' raw)
        \<longrightarrow> parseType raw = Inr TFloat"
    using no_tiny by (simp add: parseType_sublist)
  have r4: "raw = ''date'' \<longrightarrow> parseType raw = Inr TDate"
    using parseType_date by simp
  have r5: "raw = ''datetime'' \<or> raw = ''timestamp'' \<longrightarrow> parseType raw = Inr TDatetime"
    using parseType_datetime parseType_timestamp by auto
  have e1: "prefix ''enum'' raw \<Longrightarrow> raw \<noteq> ''date''" by auto
  have e2: "prefix ''enum'' raw \<Longrightarrow> raw \<noteq> ''datetime''" by auto
  have e3: "prefix ''enum'' raw \<Longrightarrow> raw \<noteq> ''timestamp''" by auto
  have r6: "\<not> sublist ''int'' raw \<and> \<not> sublist ''double'' raw \<and> \<not> sublist ''float'' raw
        \<and> \<not> sublist ''decimal'' raw \<and> prefix ''enum'' raw \<longrightarrow> parseType raw = Inr TEnum"
    using no_tiny e1 e2 e3 by (simp add: parseType_sublist)
  have c1: "sublist ''char'' raw \<Longrightarrow> raw \<noteq> ''date''"
    by (auto simp: str_includes_sublist [symmetric])
  have c2: "sublist ''char'' raw \<Longrightarrow> raw \<noteq> ''datetime''"
    by (auto simp: str_includes_sublist [symmetric])
  have c3: "sublist ''char'' raw \<Longrightarrow> raw \<noteq> ''timestamp''"
    by (auto simp: str_includes_sublist [symmetric])
  have r7: "\<not> sublist ''int'' raw \<and> \<not> sublist ''double'' raw \<and> \<not> sublist ''float'' raw
        \<and> \<not> sublist ''decimal'' raw \<and> \<not> prefix ''enum'' raw \<and> sublist ''char'' raw
        \<longrightarrow> parseType raw = Inr TString"
    using no_tiny c1 c2 c3 by (simp add: parseType_sublist)
  have r8: "\<not> sublist ''int'' raw \<and> \<not> sublist ''double'' raw \<and> \<not> sublist ''float'' raw
        \<and> \<not> sublist ''decimal'' raw \<and> raw \<noteq> ''date'' \<and> raw \<noteq> ''datetime''
        \<and> raw \<noteq> ''timestamp'' \<and> \<not> prefix ''enum'' raw \<and> \<not> sublist ''char'' raw
        \<and> sublist ''blob'' raw \<longrightarrow> parseType raw = Inr TBlob"
    using no_tiny by (simp add: parseType_sublist)
  have r9: "\<not> sublist ''int'' raw \<and> \<not> sublist ''double'' raw \<and> \<not> sublist ''float'' raw
        \<and> \<not> sublist ''decimal'' raw \<and> raw \<noteq> ''date'' \<and> raw \<noteq> ''datetime''
        \<and> raw \<noteq> ''timestamp'' \<and> \<not> prefix ''enum'' raw \<and> \<not> sublist ''char'' raw
        \<and> \<not> sublist ''blob'' raw \<longrightarrow> parseType raw = Inl (UnrecognizedTypeError raw)"
    using no_tiny by (simp add: parseType_sublist)
  from r1 r2 r3 r4 r5 r6 r7 r8 r9 show ?thesis by blast
qed

text \<open>The rules of C6 at one raw type for each of them.\<close>

theorem parseType_rules_witness:
  "parseType ''tinyint(1)'' = Inr TBoolean
   \<and> parseType ''int(11)'' = Inr TInteger
   \<and> parseType ''double'' = Inr TFloat
   \<and> parseType ''date'' = Inr TDate
   \<and> parseType ''timestamp'' = Inr TDatetime
   \<and> parseType ''enum'' = Inr TEnum
   \<and> parseType ''varchar(20)'' = Inr TString
   \<and> parseType ''blob'' = Inr TBlob
   \<and> parseType ''json'' = Inl (UnrecognizedTypeError ''json'')"
  using parseType_rules [of "''tinyint(1)''"] parseType_rules [of "''int(11)''"]
    parseType_rules [of "''double''"] parseType_rules [of "''date''"]
    parseType_rules [of "''timestamp''"] parseType_rules [of "''enum''"]
    parseType_rules [of "''varchar(20)''"] parseType_rules [of "''blob''"]
    parseType_rules [of "''json''"]
  by (simp add: str_includes_sublist [symmetric])

text \<open>
  Claim C9. A column of raw type \<^verbatim>\<open>timestamp\<close> has the canonical type datetime, and
  when its raw default is the current-timestamp constant, \<^verbatim>\<open>identifyDefaultValue\<close>
  returns the raw string and not the named constant; so does the header built from such a
  row.
\<close>

theorem timestamp_default_is_raw:
  "parseType ''timestamp'' = Inr TDatetime
   \<and> identifyDefaultValue CURRENT_TIMESTAMP ''timestamp'' TDatetime (Some CURRENT_TIMESTAMP)
       = Raw (Some CURRENT_TIMESTAMP)
   \<and> identifyDefaultValue CURRENT_TIMESTAMP ''timestamp'' TDatetime (Some CURRENT_TIMESTAMP)
       \<noteq> ConstantName CURRENT_TIMESTAMP
   \<and> map_sum id defaultValue
        (header_of_row CURRENT_TIMESTAMP
           (row\<lparr>COLUMN_TYPE := ''timestamp'', COLUMN_DEFAULT := Some CURRENT_TIMESTAMP\<rparr>))
       = Inr (Raw (Some CURRENT_TIMESTAMP))"
  by (simp add: parseType_timestamp identifyDefaultValue_def header_of_row_def
      findEnumValues_def)

subsection \<open>Headers\<close>

text \<open>
  Claim C8. The invariant that a header has enumerated values exactly when its type is enum
  does not hold for the column of type \<^verbatim>\<open>enum('print','web')\<close>: the raw type contains
  \<^verbatim>\<open>int\<close>, so \<^verbatim>\<open>headers\<close> gives it the type integer together with its two
  enumerated values.
\<close>

theorem enum_literal_with_int:
  "map_sum id (map (\<lambda>h. (name h, type h, enumValues h)))
       (headers CURRENT_TIMESTAMP media_columns ''shop'' ''media'')
     = Inr [(''kind'', TInteger, Some [''print'', ''web''])]"
  by (simp add: headers_def select_columns_def media_columns_def header_of_row_def
      parseType_def findEnumValues_def enum_body_def str_split_def line_terminator_def
      identifyDefaultValue_def suffix_to_prefix)

subsection \<open>Constraint resolution\<close>

lemmas resolver_defs =
  resolveConstraints_def constraints_def select_key_usage_def constraint_of_row_def
  findConstraint_def getConstraints_def empty_object_def object_prototype_names_def

text \<open>
  Claim C1. For the chain \<^verbatim>\<open>A.foo\<close> to \<^verbatim>\<open>B.bar\<close> to \<^verbatim>\<open>C.baz\<close> the resolver
  should return one foreign constraint with the local column \<^verbatim>\<open>foo\<close> and the target
  \<^verbatim>\<open>C.baz\<close>. The loop returns the last link it followed: the constraint of
  \<^verbatim>\<open>B\<close>, whose local column is \<^verbatim>\<open>bar\<close>.
\<close>

theorem chain_keeps_intermediate_column:
  "constraints chain_usage ''s'' (Some ''A'')
     = [\<lparr> ctype = Foreign, localColumn = ''foo'', foreignTable = Some ''B'',
          foreignColumn = Some ''bar'' \<rparr>]
   \<and> resolveConstraints chain_usage ''s'' (constraints chain_usage ''s'' (Some ''A''))
     = Some (Inr [\<lparr> ctype = Foreign, localColumn = ''bar'', foreignTable = Some ''C'',
                    foreignColumn = Some ''baz'' \<rparr>],
             [Some ''B'', Some ''C''])"
  by (simp add: resolver_defs chain_usage_def walk.simps)

text \<open>
  Claim C5. Within one call each table's constraints should be fetched at most once. The
  cache is read and never written: resolving the two foreign keys of \<^verbatim>\<open>A\<close> fetches
  the constraints of \<^verbatim>\<open>B\<close> twice.
\<close>

theorem shared_table_fetched_twice:
  "resolveConstraints shared_usage ''s'' (constraints shared_usage ''s'' (Some ''A''))
     = Some (Inr [\<lparr> ctype = Foreign, localColumn = ''x'', foreignTable = Some ''B'',
                    foreignColumn = Some ''id'' \<rparr>,
                  \<lparr> ctype = Foreign, localColumn = ''y'', foreignTable = Some ''B'',
                    foreignColumn = Some ''id'' \<rparr>],
             [Some ''B'', Some ''B''])"
  by (simp add: resolver_defs shared_usage_def walk.simps)

lemma cyclic_step_a:
  "findConstraint (foreignColumn cycle_a)
     (fst (getConstraints cyclic_usage ''s'' empty_object (foreignTable cycle_a) fetched))
   = Inr cycle_b"
  by (simp add: resolver_defs cyclic_usage_def cycle_a_def cycle_b_def)

lemma cyclic_step_b:
  "findConstraint (foreignColumn cycle_b)
     (fst (getConstraints cyclic_usage ''s'' empty_object (foreignTable cycle_b) fetched))
   = Inr cycle_a"
  by (simp add: resolver_defs cyclic_usage_def cycle_a_def cycle_b_def)

lemma walk_leaves_cycle:
  assumes "walk kcu schema cache current previous fetched = Some y"
  shows "\<not> (kcu = cyclic_usage \<and> schema = ''s'' \<and> cache = empty_object
      \<and> (current = cycle_a \<or> current = cycle_b))"
proof (rule walk.raw_induct
    [where P = "\<lambda>k s c cur p f r. \<not> (k = cyclic_usage \<and> s = ''s'' \<and> c = empty_object
                  \<and> (cur = cycle_a \<or> cur = cycle_b))", OF _ assms])
  fix w :: "key_usage_row list \<Rightarrow> string \<Rightarrow> (string \<Rightarrow> cache_entry option) \<Rightarrow> Constraint
      \<Rightarrow> Constraint option \<Rightarrow> string option list
      \<Rightarrow> ((error + Constraint option) \<times> string option list) option"
    and k s c and cur :: Constraint and p f r
  assume IH: "\<And>k s c cur p f r. w k s c cur p f = Some r \<Longrightarrow>
      \<not> (k = cyclic_usage \<and> s = ''s'' \<and> c = empty_object \<and> (cur = cycle_a \<or> cur = cycle_b))"
  assume eq: "(if ctype cur = Primary then Some (Inr p, f)
      else case findConstraint (foreignColumn cur)
                  (fst (getConstraints k s c (foreignTable cur) f)) of
             Inl e \<Rightarrow> Some (Inl e, snd (getConstraints k s c (foreignTable cur) f))
           | Inr next \<Rightarrow>
               w k s c next (Some cur) (snd (getConstraints k s c (foreignTable cur) f)))
      = Some r"
  show "\<not> (k = cyclic_usage \<and> s = ''s'' \<and> c = empty_object \<and> (cur = cycle_a \<or> cur = cycle_b))"
  proof
    assume a: "k = cyclic_usage \<and> s = ''s'' \<and> c = empty_object
      \<and> (cur = cycle_a \<or> cur = cycle_b)"
    then consider "cur = cycle_a" | "cur = cycle_b" by blast
    then show False
    proof cases
      case 1
      have "ctype cycle_a \<noteq> Primary" by (simp add: cycle_a_def)
      with eq a 1 have
        "w cyclic_usage ''s'' empty_object cycle_b (Some cycle_a)
           (snd (getConstraints cyclic_usage ''s'' empty_object (foreignTable cycle_a) f))
         = Some r"
        by (simp add: cyclic_step_a)
      from IH [OF this] show False by simp
    next
      case 2
      have "ctype cycle_b \<noteq> Primary" by (simp add: cycle_b_def)
      with eq a 2 have
        "w cyclic_usage ''s'' empty_object cycle_a (Some cycle_b)
           (snd (getConstraints cyclic_usage ''s'' empty_object (foreignTable cycle_b) f))
         = Some r"
        by (simp add: cyclic_step_b)
      from IH [OF this] show False by simp
    qed
  qed
qed

lemma walk_cycle_a: "walk cyclic_usage ''s'' empty_object cycle_a previous fetched = None"
proof (cases "walk cyclic_usage ''s'' empty_object cycle_a previous fetched")
  case None
  then show ?thesis .
next
  case (Some y)
  from walk_leaves_cycle [OF Some] show ?thesis by simp
qed

text \<open>
  Claim C3, as stated: the resolver terminates on every catalog. For the two foreign keys
  that reference each other the loop never ends, so the call does not return.
\<close>

theorem cyclic_chain_never_returns:
  "constraints cyclic_usage ''s'' (Some ''A'')
     = [\<lparr> ctype = Foreign, localColumn = ''x'', foreignTable = Some ''B'',
          foreignColumn = Some ''y'' \<rparr>]
   \<and> resolveConstraints cyclic_usage ''s'' (constraints cyclic_usage ''s'' (Some ''A'')) = None"
proof -
  have c: "constraints cyclic_usage ''s'' (Some ''A'') = [cycle_a]"
    by (simp add: constraints_def select_key_usage_def constraint_of_row_def
        cyclic_usage_def cycle_a_def)
  have "resolveConstraints cyclic_usage ''s'' [cycle_a] = None"
    by (simp add: resolveConstraints_def walk_cycle_a) (simp add: cycle_a_def)
  with c show ?thesis by (simp add: cycle_a_def)
qed

lemma getConstraints_fst:
  "fst (getConstraints kcu schema cache table fetched)
   = fst (getConstraints kcu schema cache table [])"
  by (simp add: getConstraints_def split: option.splits cache_entry.splits)

lemma findConstraint_error:
  "findConstraint column others = Inl e \<Longrightarrow> e = BrokenForeignKeyError (js_str column)"
  by (auto simp: findConstraint_def split: option.splits)

lemma walk_primary:
  "ctype c = Primary \<Longrightarrow> walk kcu schema cache c previous fetched = Some (Inr previous, fetched)"
  by (subst walk.simps) simp

lemma walk_broken:
  "ctype c \<noteq> Primary \<Longrightarrow> follow kcu schema cache c = Inl e \<Longrightarrow>
   walk kcu schema cache c previous fetched
   = Some (Inl e, snd (getConstraints kcu schema cache (foreignTable c) fetched))"
  by (subst walk.simps) (simp add: follow_def getConstraints_fst [of _ _ _ _ fetched])

lemma walk_step:
  "ctype c \<noteq> Primary \<Longrightarrow> follow kcu schema cache c = Inr next \<Longrightarrow>
   walk kcu schema cache c previous fetched
   = walk kcu schema cache next (Some c)
       (snd (getConstraints kcu schema cache (foreignTable c) fetched))"
  by (subst walk.simps) (simp add: follow_def getConstraints_fst [of _ _ _ _ fetched])

lemma follow_error:
  "follow kcu schema cache c = Inl e \<Longrightarrow> e = BrokenForeignKeyError (js_str (foreignColumn c))"
  unfolding follow_def by (rule findConstraint_error)

lemma walk_outcome:
  "chain_ends n kcu schema cache c \<Longrightarrow>
   \<exists>r fetched'. walk kcu schema cache c previous fetched = Some (r, fetched')
      \<and> (if reaches_primary n kcu schema cache c then \<exists>p. r = Inr p
          else \<exists>column. r = Inl (BrokenForeignKeyError column))"
proof (induction n arbitrary: c previous fetched)
  case 0
  then show ?case by (simp add: walk_primary)
next
  case (Suc n)
  show ?case
  proof (cases "ctype c = Primary")
    case True
    then show ?thesis by (simp add: walk_primary)
  next
    case False
    show ?thesis
    proof (cases "follow kcu schema cache c")
      case (Inl e)
      with False follow_error [OF Inl] show ?thesis
        by (simp add: walk_broken)
    next
      case (Inr "next")
      with Suc.prems False have "chain_ends n kcu schema cache next" by simp
      from Suc.IH [OF this] False Inr show ?thesis
        by (simp add: walk_step)
    qed
  qed
qed

lemma reaches_primary_ends:
  "reaches_primary n kcu schema cache c \<Longrightarrow> chain_ends n kcu schema cache c"
  by (induction n arbitrary: c) (auto split: sum.splits)

lemma resolve_loop_outcome:
  "\<forall>c \<in> set originals. ctype c = Foreign \<longrightarrow> chain_ends n kcu schema cache c \<Longrightarrow>
   \<exists>r fetched'. resolve_loop kcu schema cache originals resolved fetched = Some (r, fetched')
      \<and> (if \<forall>c \<in> set originals. ctype c = Foreign \<longrightarrow> reaches_primary n kcu schema cache c
          then \<exists>rs. r = Inr rs
          else \<exists>column. r = Inl (BrokenForeignKeyError column))"
proof (induction originals arbitrary: resolved fetched)
  case Nil
  then show ?case by simp
next
  case (Cons c cs)
  then have rest: "\<forall>c \<in> set cs. ctype c = Foreign \<longrightarrow> chain_ends n kcu schema cache c"
    by simp
  show ?case
  proof (cases "ctype c = Foreign")
    case False
    with Cons.IH [OF rest, of "resolved @ [c]" fetched] show ?thesis by simp
  next
    case True
    with Cons.prems have "chain_ends n kcu schema cache c" by simp
    from walk_outcome [OF this, of None fetched] obtain r fetched' where
      w: "walk kcu schema cache c None fetched = Some (r, fetched')"
      and o: "if reaches_primary n kcu schema cache c then \<exists>p. r = Inr p
          else \<exists>column. r = Inl (BrokenForeignKeyError column)"
      by blast
    show ?thesis
    proof (cases "reaches_primary n kcu schema cache c")
      case False
      with o obtain column where "r = Inl (BrokenForeignKeyError column)" by auto
      with True w False show ?thesis by auto
    next
      case rp: True
      with o obtain p where p: "r = Inr p" by auto
      from Cons.IH [OF rest,
          of "case p of None \<Rightarrow> resolved | Some q \<Rightarrow> resolved @ [q]" fetched']
      show ?thesis using True w p rp by simp
    qed
  qed
qed

lemma walk_returns_ends:
  assumes "walk kcu schema cache current previous fetched = Some y"
  shows "\<exists>n. chain_ends n kcu schema cache current"
proof (rule walk.raw_induct
    [where P = "\<lambda>k s c cur p f r. \<exists>n. chain_ends n k s c cur", OF _ assms])
  fix w :: "key_usage_row list \<Rightarrow> string \<Rightarrow> (string \<Rightarrow> cache_entry option) \<Rightarrow> Constraint
      \<Rightarrow> Constraint option \<Rightarrow> string option list
      \<Rightarrow> ((error + Constraint option) \<times> string option list) option"
    and k s c and cur :: Constraint and p f r
  assume IH: "\<And>k s c cur p f r. w k s c cur p f = Some r \<Longrightarrow> \<exists>n. chain_ends n k s c cur"
  assume eq: "(if ctype cur = Primary then Some (Inr p, f)
      else case findConstraint (foreignColumn cur)
                  (fst (getConstraints k s c (foreignTable cur) f)) of
             Inl e \<Rightarrow> Some (Inl e, snd (getConstraints k s c (foreignTable cur) f))
           | Inr next \<Rightarrow>
               w k s c next (Some cur) (snd (getConstraints k s c (foreignTable cur) f)))
      = Some r"
  show "\<exists>n. chain_ends n k s c cur"
  proof (cases "ctype cur = Primary")
    case True
    then have "chain_ends 0 k s c cur" by simp
    then show ?thesis ..
  next
    case False
    show ?thesis
    proof (cases "follow k s c cur")
      case (Inl e)
      then have "chain_ends (Suc 0) k s c cur" by simp
      then show ?thesis ..
    next
      case (Inr "next")
      with eq False have
        "w k s c next (Some cur) (snd (getConstraints k s c (foreignTable cur) f)) = Some r"
        by (simp add: follow_def getConstraints_fst [of _ _ _ _ f])
      from IH [OF this] obtain n where "chain_ends n k s c next" ..
      with Inr have "chain_ends (Suc n) k s c cur" by simp
      then show ?thesis ..
    qed
  qed
qed

lemma walk_never_ends:
  assumes "\<forall>m. \<not> chain_ends m kcu schema cache c"
  shows "walk kcu schema cache c previous fetched = None"
proof (cases "walk kcu schema cache c previous fetched")
  case None
  then show ?thesis .
next
  case (Some y)
  from walk_returns_ends [OF Some] assms show ?thesis by blast
qed

lemma resolve_loop_append:
  "resolve_loop kcu schema cache pre resolved fetched = Some (Inr res, fetched') \<Longrightarrow>
   resolve_loop kcu schema cache (pre @ rest) resolved fetched
     = resolve_loop kcu schema cache rest res fetched'"
proof (induction pre arbitrary: resolved fetched)
  case Nil
  then show ?case by simp
next
  case (Cons c cs)
  show ?case
  proof (cases "ctype c = Foreign")
    case False
    with Cons show ?thesis by simp
  next
    case True
    with Cons.prems obtain p f where
      w: "walk kcu schema cache c None fetched = Some (Inr p, f)"
      and r: "resolve_loop kcu schema cache cs
                (case p of None \<Rightarrow> resolved | Some q \<Rightarrow> resolved @ [q]) f
              = Some (Inr res, fetched')"
      by (auto split: option.splits sum.splits prod.splits)
    from Cons.IH [OF r] True w show ?thesis by simp
  qed
qed

lemma resolve_loop_never_ends:
  assumes pre: "\<forall>d \<in> set pre. ctype d = Foreign \<longrightarrow> reaches_primary n kcu schema cache d"
    and c: "ctype c = Foreign" "\<forall>m. \<not> chain_ends m kcu schema cache c"
  shows "resolve_loop kcu schema cache (pre @ c # post) resolved fetched = None"
proof -
  from pre have "\<forall>d \<in> set pre. ctype d = Foreign \<longrightarrow> chain_ends n kcu schema cache d"
    using reaches_primary_ends by blast
  from resolve_loop_outcome [OF this, of resolved fetched] pre obtain rs fetched' where
    "resolve_loop kcu schema cache pre resolved fetched = Some (Inr rs, fetched')"
    by auto
  from resolve_loop_append [OF this] c(1) walk_never_ends [OF c(2)] show ?thesis
    by simp
qed

text \<open>
  Claim C3, amended. When the chain of every foreign constraint of the input ends within
  \<open>n\<close> look-ups, the resolver terminates: it returns the resolved constraints when every
  chain reaches a primary constraint, and it fails with the error of a broken chain when a
  chain ends without reaching one. The walk has no bound: when the chain of a foreign
  constraint never ends and the foreign constraints before it reach a primary constraint,
  the resolver does not return.
\<close>

theorem resolveConstraints_terminates:
  "((\<forall>c \<in> set originals. ctype c = Foreign \<longrightarrow> chain_ends n kcu schema empty_object c) \<longrightarrow>
      (\<exists>r fetched. resolveConstraints kcu schema originals = Some (r, fetched)
         \<and> (if \<forall>c \<in> set originals. ctype c = Foreign
                  \<longrightarrow> reaches_primary n kcu schema empty_object c
             then \<exists>resolved. r = Inr resolved
             else \<exists>column. r = Inl (BrokenForeignKeyError column))))
   \<and> ((\<forall>d \<in> set pre. ctype d = Foreign \<longrightarrow> reaches_primary n kcu schema empty_object d)
        \<and> ctype c = Foreign \<and> (\<forall>m. \<not> chain_ends m kcu schema empty_object c) \<longrightarrow>
      resolveConstraints kcu schema (pre @ c # post) = None)"
proof -
  have first: "(\<forall>c \<in> set originals. ctype c = Foreign \<longrightarrow> chain_ends n kcu schema empty_object c) \<longrightarrow>
      (\<exists>r fetched. resolveConstraints kcu schema originals = Some (r, fetched)
         \<and> (if \<forall>c \<in> set originals. ctype c = Foreign
                  \<longrightarrow> reaches_primary n kcu schema empty_object c
             then \<exists>resolved. r = Inr resolved
             else \<exists>column. r = Inl (BrokenForeignKeyError column)))"
    unfolding resolveConstraints_def using resolve_loop_outcome by blast
  have second: "(\<forall>d \<in> set pre. ctype d = Foreign \<longrightarrow> reaches_primary n kcu schema empty_object d)
        \<and> ctype c = Foreign \<and> (\<forall>m. \<not> chain_ends m kcu schema empty_object c) \<longrightarrow>
      resolveConstraints kcu schema (pre @ c # post) = None"
    unfolding resolveConstraints_def using resolve_loop_never_ends by blast
  from first second show ?thesis by blast
qed

lemma cycle_never_ends:
  "\<not> chain_ends m cyclic_usage ''s'' empty_object cycle_a
   \<and> \<not> chain_ends m cyclic_usage ''s'' empty_object cycle_b"
proof (induction m)
  case 0
  show ?case by (simp add: cycle_a_def cycle_b_def)
next
  case (Suc m)
  have a: "follow cyclic_usage ''s'' empty_object cycle_a = Inr cycle_b"
    by (simp add: follow_def resolver_defs cyclic_usage_def cycle_a_def cycle_b_def)
  have b: "follow cyclic_usage ''s'' empty_object cycle_b = Inr cycle_a"
    by (simp add: follow_def resolver_defs cyclic_usage_def cycle_a_def cycle_b_def)
  have "ctype cycle_a \<noteq> Primary" "ctype cycle_b \<noteq> Primary"
    by (simp_all add: cycle_a_def cycle_b_def)
  with Suc a b show ?case by simp
qed

text \<open>
  The chain of three tables reaches its primary key and is resolved; the chain that ends at
  \<^verbatim>\<open>C.gone\<close> fails; the two keys that reference each other never return.
\<close>

theorem resolveConstraints_terminates_witness:
  "(\<exists>r fetched. resolveConstraints chain_usage ''s'' [chain_foo] = Some (r, fetched)
      \<and> (\<exists>resolved. r = Inr resolved))
   \<and> (\<exists>r fetched. resolveConstraints gone_usage ''s'' [gone_primary, gone_foo] = Some (r, fetched)
      \<and> (\<exists>column. r = Inl (BrokenForeignKeyError column)))
   \<and> resolveConstraints cyclic_usage ''s'' ([] @ cycle_a # []) = None"
proof -
  have e1: "\<forall>c \<in> set [chain_foo]. ctype c = Foreign
              \<longrightarrow> chain_ends (Suc (Suc 0)) chain_usage ''s'' empty_object c"
    by (simp add: follow_def resolver_defs chain_usage_def chain_foo_def)
  have p1: "\<forall>c \<in> set [chain_foo]. ctype c = Foreign
              \<longrightarrow> reaches_primary (Suc (Suc 0)) chain_usage ''s'' empty_object c"
    by (simp add: follow_def resolver_defs chain_usage_def chain_foo_def)
  have e2: "\<forall>c \<in> set [gone_primary, gone_foo]. ctype c = Foreign
              \<longrightarrow> chain_ends (Suc (Suc 0)) gone_usage ''s'' empty_object c"
    by (simp add: follow_def resolver_defs gone_usage_def gone_primary_def gone_foo_def)
  have p2: "\<not> (\<forall>c \<in> set [gone_primary, gone_foo]. ctype c = Foreign
              \<longrightarrow> reaches_primary (Suc (Suc 0)) gone_usage ''s'' empty_object c)"
    by (simp add: follow_def resolver_defs gone_usage_def gone_primary_def gone_foo_def)
  have c3: "(\<forall>d \<in> set []. ctype d = Foreign
               \<longrightarrow> reaches_primary 0 cyclic_usage ''s'' empty_object d)
            \<and> ctype cycle_a = Foreign
            \<and> (\<forall>m. \<not> chain_ends m cyclic_usage ''s'' empty_object cycle_a)"
    using cycle_never_ends by (simp add: cycle_a_def)
  have "\<exists>r fetched. resolveConstraints chain_usage ''s'' [chain_foo] = Some (r, fetched)
      \<and> (if \<forall>c \<in> set [chain_foo]. ctype c = Foreign
               \<longrightarrow> reaches_primary (Suc (Suc 0)) chain_usage ''s'' empty_object c
          then \<exists>resolved. r = Inr resolved
          else \<exists>column. r = Inl (BrokenForeignKeyError column))"
    by (rule mp [OF conjunct1 [OF resolveConstraints_terminates] e1])
  then have first: "\<exists>r fetched. resolveConstraints chain_usage ''s'' [chain_foo] = Some (r, fetched)
      \<and> (\<exists>resolved. r = Inr resolved)"
    unfolding if_P [OF p1] .
  have "\<exists>r fetched. resolveConstraints gone_usage ''s'' [gone_primary, gone_foo] = Some (r, fetched)
      \<and> (if \<forall>c \<in> set [gone_primary, gone_foo]. ctype c = Foreign
               \<longrightarrow> reaches_primary (Suc (Suc 0)) gone_usage ''s'' empty_object c
          then \<exists>resolved. r = Inr resolved
          else \<exists>column. r = Inl (BrokenForeignKeyError column))"
    by (rule mp [OF conjunct1 [OF resolveConstraints_terminates] e2])
  then have second: "\<exists>r fetched. resolveConstraints gone_usage ''s'' [gone_primary, gone_foo]
        = Some (r, fetched) \<and> (\<exists>column. r = Inl (BrokenForeignKeyError column))"
    unfolding if_not_P [OF p2] .
  have third: "resolveConstraints cyclic_usage ''s'' ([] @ cycle_a # []) = None"
    by (rule mp [OF conjunct2 [OF resolveConstraints_terminates] c3])
  from first second third show ?thesis by blast
qed







subsection \<open>Table names matched with LIKE\<close>

lemmas header_defs =
  headers_def select_columns_def part_columns_def part_column_def header_of_row_def
  parseType_def findEnumValues_def identifyDefaultValue_def starts_with_def

lemma part_headers:
  "map_sum id (map (\<lambda>h. (tableName h, name h)))
       (headers CURRENT_TIMESTAMP part_columns ''shop'' ''part_a'')
   = Inr [(''part_a'', ''id''), (''partxa'', ''code''), (''part_a'', ''label'')]"
  by (simp add: header_defs)

lemma part_headers_percent:
  "map_sum id (map (\<lambda>h. (tableName h, name h)))
       (headers CURRENT_TIMESTAMP part_columns ''shop'' ''part%'')
   = Inr [(''part_a'', ''id''), (''partxa'', ''code''), (''partxya'', ''note''),
          (''parts'', ''n''), (''part_a'', ''label'')]"
  by (simp add: header_defs)

text \<open>
  Claim C10. \<^verbatim>\<open>headers\<close> compares the table name with \<^verbatim>\<open>LIKE\<close>. The name
  \<^verbatim>\<open>part_a\<close> matches the tables \<^verbatim>\<open>part_a\<close> and \<^verbatim>\<open>partxa\<close> and not
  \<^verbatim>\<open>partxya\<close> or \<^verbatim>\<open>parts\<close>; \<^verbatim>\<open>headers\<close> and \<^verbatim>\<open>meta\<close> for
  \<^verbatim>\<open>part_a\<close> in the schema \<^verbatim>\<open>shop\<close> return the three columns of the two
  matching tables of that schema, and none of the other tables or of the other schema.
  With the name \<^verbatim>\<open>part%\<close>, \<^verbatim>\<open>headers\<close> returns the five columns of the four
  tables of the schema.
\<close>

theorem like_returns_columns_of_both_tables:
  "sql_like ''part_a'' ''part_a'' \<and> sql_like ''part_a'' ''partxa''
   \<and> \<not> sql_like ''part_a'' ''partxya'' \<and> \<not> sql_like ''part_a'' ''parts''
   \<and> map_sum id (\<lambda>hs. (length hs, set (map (\<lambda>h. (tableName h, name h)) hs)))
       (headers CURRENT_TIMESTAMP part_columns ''shop'' ''part_a'')
     = Inr (3, {(''part_a'', ''id''), (''part_a'', ''label''), (''partxa'', ''code'')})
   \<and> map_option
       (map_sum id (\<lambda>m. (length (meta_headers m),
                          set (map (\<lambda>h. (tableName h, name h)) (meta_headers m)))))
       (meta CURRENT_TIMESTAMP unflattenTableNames (Inr allTables) part_columns (Inr n) []
          (Inr table_comment) ''shop'' ''part_a'')
     = Some (Inr (3, {(''part_a'', ''id''), (''part_a'', ''label''), (''partxa'', ''code'')}))
   \<and> map_sum id (\<lambda>hs. (length hs, set (map (\<lambda>h. (tableName h, name h)) hs)))
       (headers CURRENT_TIMESTAMP part_columns ''shop'' ''part%'')
     = Inr (5, {(''part_a'', ''id''), (''part_a'', ''label''), (''partxa'', ''code''),
                (''partxya'', ''note''), (''parts'', ''n'')})"
proof -
  let ?names = "map (\<lambda>h. (tableName h, name h))"
  from part_headers [of CURRENT_TIMESTAMP] obtain hs where
    hs: "headers CURRENT_TIMESTAMP part_columns ''shop'' ''part_a'' = Inr hs"
    and names: "?names hs = [(''part_a'', ''id''), (''partxa'', ''code''), (''part_a'', ''label'')]"
    by (cases "headers CURRENT_TIMESTAMP part_columns ''shop'' ''part_a''") auto
  from part_headers_percent [of CURRENT_TIMESTAMP] obtain ps where
    ps: "headers CURRENT_TIMESTAMP part_columns ''shop'' ''part%'' = Inr ps"
    and pnames: "?names ps = [(''part_a'', ''id''), (''partxa'', ''code''),
          (''partxya'', ''note''), (''parts'', ''n''), (''part_a'', ''label'')]"
    by (cases "headers CURRENT_TIMESTAMP part_columns ''shop'' ''part%''") auto
  have none: "resolveConstraints [] ''shop'' (constraints [] ''shop'' (Some ''part_a''))
      = Some (Inr [], [])"
    by (simp add: resolveConstraints_def constraints_def select_key_usage_def)
  have s: "set (?names hs) = {(''part_a'', ''id''), (''part_a'', ''label''), (''partxa'', ''code'')}"
    unfolding names by auto
  have l: "length hs = 3"
    using arg_cong [OF names, of length] by simp
  have sp: "set (?names ps) = {(''part_a'', ''id''), (''part_a'', ''label''), (''partxa'', ''code''),
                (''partxya'', ''note''), (''parts'', ''n'')}"
    unfolding pnames by auto
  have lp: "length ps = 5"
    using arg_cong [OF pnames, of length] by simp
  have likes: "sql_like ''part_a'' ''part_a'' \<and> sql_like ''part_a'' ''partxa''
     \<and> \<not> sql_like ''part_a'' ''partxya'' \<and> \<not> sql_like ''part_a'' ''parts''"
    by simp
  have first: "map_sum id (\<lambda>hs. (length hs, set (?names hs)))
       (headers CURRENT_TIMESTAMP part_columns ''shop'' ''part_a'')
     = Inr (3, {(''part_a'', ''id''), (''part_a'', ''label''), (''partxa'', ''code'')})"
    unfolding hs using s l by simp
  have second: "map_option
       (map_sum id (\<lambda>m. (length (meta_headers m), set (?names (meta_headers m)))))
       (meta CURRENT_TIMESTAMP unflattenTableNames (Inr allTables) part_columns (Inr n) []
          (Inr table_comment) ''shop'' ''part_a'')
     = Some (Inr (3, {(''part_a'', ''id''), (''part_a'', ''label''), (''partxa'', ''code'')}))"
    using s l by (simp add: meta_def hs none rejection_def)
  have third: "map_sum id (\<lambda>hs. (length hs, set (?names hs)))
       (headers CURRENT_TIMESTAMP part_columns ''shop'' ''part%'')
     = Inr (5, {(''part_a'', ''id''), (''part_a'', ''label''), (''partxa'', ''code''),
                (''partxya'', ''note''), (''parts'', ''n'')})"
    unfolding ps using sp lp by simp
  from likes first second third show ?thesis by blast
qed

subsection \<open>Inserting rows\<close>

text \<open>
  Claim C2. The rows prepared for each target table should be inserted into that table,
  the master before its parts. The names are visited in ascending order, but every statement
  names the table given to \<^verbatim>\<open>insertRow\<close>: the row of \<^verbatim>\<open>orders__detail\<close> is
  inserted into \<^verbatim>\<open>orders\<close>.
\<close>

theorem part_rows_go_to_master:
  "insertRow backticks record_statement (\<lambda>schema data. Inr data) ''shop'' ''orders''
     orders_data []
   = (Inr (),
      [Insert (backticks ''shop'' @ ''.'' @ backticks ''orders'')
         [[(backticks ''id'', Number 7)]],
       Insert (backticks ''shop'' @ ''.'' @ backticks ''orders'')
         [[(backticks ''sku'', Text ''pen''), (backticks ''gift'', Number 1)]]])"
  by (simp add: insertRow_def transaction_def orders_data_def record_statement_def
      prepareForInsert_def backticks_def)

lemma insert_loop_append:
  "set earlier \<subseteq> fst ` set preparedData \<Longrightarrow>
   run_statements execute (map (statement_for escapeId schema table preparedData) earlier) db
     = (Inr (), db1) \<Longrightarrow>
   insert_loop escapeId execute schema table preparedData (earlier @ rest) db
     = insert_loop escapeId execute schema table preparedData rest db1"
proof (induction earlier arbitrary: db)
  case Nil
  then show ?case by simp
next
  case (Cons nm names)
  from Cons.prems(1) obtain rows where rows: "map_of preparedData nm = Some rows"
    by (cases "map_of preparedData nm") (auto simp: map_of_eq_None_iff)
  have st: "statement_for escapeId schema table preparedData nm
            = Insert (escapeId schema @ ''.'' @ escapeId table)
                (map (prepareForInsert escapeId) rows)"
    using rows by (simp add: statement_for_def rows_for_def)
  from Cons.prems(2) obtain db' where
    e: "execute (Insert (escapeId schema @ ''.'' @ escapeId table)
                   (map (prepareForInsert escapeId) rows)) db = (Inr (), db')"
    and r: "run_statements execute
              (map (statement_for escapeId schema table preparedData) names) db' = (Inr (), db1)"
    by (auto simp: st split: prod.splits sum.splits)
  from Cons.prems(1) have "set names \<subseteq> fst ` set preparedData" by simp
  from Cons.IH [OF this r] rows e show ?case by simp
qed

lemma insert_loop_fails:
  assumes "set earlier \<subseteq> fst ` set preparedData" and "nm \<in> fst ` set preparedData"
    and "run_statements execute (map (statement_for escapeId schema table preparedData) earlier) db
         = (Inr (), db1)"
    and "execute (statement_for escapeId schema table preparedData nm) db1 = (Inl e, db2)"
  shows "insert_loop escapeId execute schema table preparedData (earlier @ nm # rest) db
         = (Inl e, db2)"
proof -
  from assms(2) obtain rows where rows: "map_of preparedData nm = Some rows"
    by (cases "map_of preparedData nm") (auto simp: map_of_eq_None_iff)
  with assms(4) show ?thesis
    by (simp add: insert_loop_append [OF assms(1,3)] statement_for_def rows_for_def)
qed

text \<open>
  Claim C7. When the validation fails, \<^verbatim>\<open>insertRow\<close> fails with its error and the
  store is as before. When, in the order of the sorted names, the inserts for the earlier
  names have run and the insert for the next name fails, \<^verbatim>\<open>insertRow\<close> fails with
  that error and the store is as it was before the call: none of the earlier inserts
  remains.
\<close>

theorem insertRow_rolls_back:
  "(validate schema data = Inl e \<longrightarrow>
      insertRow escapeId execute validate schema table data db = (Inl e, db))
   \<and> (validate schema data = Inr preparedData
        \<and> sort (map fst preparedData) = earlier @ nm # rest
        \<and> run_statements execute
             (map (statement_for escapeId schema table preparedData) earlier) db = (Inr (), db1)
        \<and> execute (statement_for escapeId schema table preparedData nm) db1 = (Inl e, db2) \<longrightarrow>
      insertRow escapeId execute validate schema table data db = (Inl e, db))"
proof -
  have first: "validate schema data = Inl e \<longrightarrow>
      insertRow escapeId execute validate schema table data db = (Inl e, db)"
    by (simp add: insertRow_def)
  have second: "validate schema data = Inr preparedData
        \<and> sort (map fst preparedData) = earlier @ nm # rest
        \<and> run_statements execute
             (map (statement_for escapeId schema table preparedData) earlier) db = (Inr (), db1)
        \<and> execute (statement_for escapeId schema table preparedData nm) db1 = (Inl e, db2) \<longrightarrow>
      insertRow escapeId execute validate schema table data db = (Inl e, db)"
  proof
    assume a: "validate schema data = Inr preparedData
        \<and> sort (map fst preparedData) = earlier @ nm # rest
        \<and> run_statements execute
             (map (statement_for escapeId schema table preparedData) earlier) db = (Inr (), db1)
        \<and> execute (statement_for escapeId schema table preparedData nm) db1 = (Inl e, db2)"
    then have s: "sort (map fst preparedData) = earlier @ nm # rest" by blast
    have "set (sort (map fst preparedData)) = fst ` set preparedData" by simp
    with s have keys: "set earlier \<subseteq> fst ` set preparedData" "nm \<in> fst ` set preparedData"
      by auto
    from a have
      "insert_loop escapeId execute schema table preparedData (earlier @ nm # rest) db
         = (Inl e, db2)"
      by (intro insert_loop_fails [OF keys]) blast+
    with a s show "insertRow escapeId execute validate schema table data db = (Inl e, db)"
      by (simp add: insertRow_def transaction_def)
  qed
  from first second show ?thesis by blast
qed

text \<open>
  A rejected submission; and a submission whose first insert succeeds and whose second
  fails, after which the store is empty again.
\<close>

theorem insertRow_rolls_back_witness:
  "insertRow backticks orders_store reject_all ''shop'' ''orders'' orders_data []
     = (Inl (ValidationError ''id is required''), [])
   \<and> run_statements orders_store
        (map (statement_for backticks ''shop'' ''orders'' orders_data) [''orders'']) []
       = (Inr (), [Insert (backticks ''shop'' @ ''.'' @ backticks ''orders'')
                     [[(backticks ''id'', Number 7)]]])
   \<and> insertRow backticks orders_store accept_all ''shop'' ''orders'' orders_data []
       = (Inl (StoreError ''Unknown column''), [])"
proof -
  let ?first = "Insert (backticks ''shop'' @ ''.'' @ backticks ''orders'')
                  [[(backticks ''id'', Number 7)]]"
  have v: "reject_all ''shop'' orders_data = Inl (ValidationError ''id is required'')"
    by (simp add: reject_all_def)
  have h1: "accept_all ''shop'' orders_data = Inr orders_data"
    by (simp add: accept_all_def)
  have h2: "sort (map fst orders_data) = [''orders''] @ ''orders__detail'' # []"
    by (simp add: orders_data_def)
  have h3: "run_statements orders_store
        (map (statement_for backticks ''shop'' ''orders'' orders_data) [''orders'']) []
       = (Inr (), [?first])"
    by (simp add: statement_for_def rows_for_def orders_data_def orders_store_def
        prepareForInsert_def backticks_def)
  have h4: "orders_store (statement_for backticks ''shop'' ''orders'' orders_data
              ''orders__detail'') [?first]
            = (Inl (StoreError ''Unknown column''), [?first])"
    by (simp add: statement_for_def rows_for_def orders_data_def orders_store_def
        prepareForInsert_def backticks_def)
  have a: "insertRow backticks orders_store reject_all ''shop'' ''orders'' orders_data []
             = (Inl (ValidationError ''id is required''), [])"
    by (rule mp [OF conjunct1 [OF insertRow_rolls_back
            [where validate = reject_all and schema = "''shop''" and data = orders_data
               and escapeId = backticks and execute = orders_store and table = "''orders''"
               and db = "[]"]] v])
  have b: "insertRow backticks orders_store accept_all ''shop'' ''orders'' orders_data []
             = (Inl (StoreError ''Unknown column''), [])"
    by (rule mp [OF conjunct2 [OF insertRow_rolls_back
            [where validate = accept_all and schema = "''shop''" and data = orders_data
               and escapeId = backticks and execute = orders_store and table = "''orders''"
               and db = "[]" and preparedData = orders_data and earlier = "[''orders'']"
               and nm = "''orders__detail''" and rest = "[]"
               and ?db1.0 = "[Insert (backticks ''shop'' @ ''.'' @ backticks ''orders'')
                               [[(backticks ''id'', Number 7)]]]"
               and ?db2.0 = "[Insert (backticks ''shop'' @ ''.'' @ backticks ''orders'')
                               [[(backticks ''id'', Number 7)]]]"]]])
      (intro conjI h1 h2 h3 h4)
  from a h3 b show ?thesis by blast
qed

end
